theory Spec2Isabelle
  imports Main
begin

section \<open>Strings as the C++ code uses them\<close>

text \<open>
  A \<open>std::string\<close> is a \<open>string\<close> (a list of bytes). \<open>s.find(pat)\<close> gives the
  least index at which \<open>pat\<close> occurs in \<open>s\<close>, or \<open>npos\<close>, which is \<open>None\<close> here.
  The source tests \<open>find(pat) == 0\<close> for "starts with" and \<open>find(pat) != npos\<close> for
  "contains". \<open>s.substr(n)\<close> is \<open>drop n s\<close> and \<open>s.substr(0, n)\<close> is \<open>take n s\<close>; the
  source calls \<open>substr\<close> only with positions inside the string.
\<close>

fun starts_with :: "string \<Rightarrow> string \<Rightarrow> bool" where
  "starts_with s [] = True"
| "starts_with [] (p # ps) = False"
| "starts_with (c # cs) (p # ps) = (if c = p then starts_with cs ps else False)"

fun str_find :: "string \<Rightarrow> string \<Rightarrow> nat option" where
  "str_find [] pat = (if pat = [] then Some 0 else None)"
| "str_find (c # cs) pat =
     (if starts_with (c # cs) pat then Some 0 else map_option Suc (str_find cs pat))"

section \<open>PathSafetyGuard: \<open>isDangerousCombination\<close>\<close>

definition protectedFolders :: "string list" where
  "protectedFolders =
     [''sdmc:/Nintendo/'', ''sdmc:/emuMMC/'', ''sdmc:/atmosphere/'', ''sdmc:/bootloader/'',
      ''sdmc:/switch/'', ''sdmc:/config/'', ''sdmc:/'']"

definition ultraProtectedFolders :: "string list" where
  "ultraProtectedFolders = [''sdmc:/Nintendo/'', ''sdmc:/emuMMC/'']"

definition dangerousCombinationPatterns :: "string list" where
  "dangerousCombinationPatterns = [''*'', ''*/'']"

definition dangerousPatterns :: "string list" where
  "dangerousPatterns = [''..'', ''~'']"

text \<open>
  The character loop that splits \<open>relativePath\<close> on \<open>/\<close>: \<open>segs\<close> is \<open>pathSegments\<close>,
  \<open>seg\<close> is the \<open>pathSegment\<close> under construction. Empty segments are never pushed.
\<close>

fun split_loop :: "string \<Rightarrow> string list \<Rightarrow> string \<Rightarrow> string list \<times> string" where
  "split_loop [] segs seg = (segs, seg)"
| "split_loop (c # cs) segs seg =
     (if c = CHR ''/''
      then (if seg \<noteq> [] then split_loop cs (segs @ [seg]) [] else split_loop cs segs seg)
      else split_loop cs segs (seg @ [c]))"

definition pathSegmentsOf :: "string \<Rightarrow> string list" where
  "pathSegmentsOf relativePath =
     (case split_loop relativePath [] [] of
        (segs, seg) \<Rightarrow> if seg \<noteq> [] then segs @ [seg] else segs)"

text \<open>
  Every loop of the source that can \<open>return true\<close> from inside is a function that is
  \<open>True\<close> exactly when that return is taken; \<open>False\<close> means the loop ran to its end.
\<close>

fun ultraProtectedHit :: "string \<Rightarrow> string list \<Rightarrow> bool" where
  "ultraProtectedHit patternPath [] = False"
| "ultraProtectedHit patternPath (ultraProtectedFolder # rest) =
     (if str_find patternPath ultraProtectedFolder = Some 0 then True
      else ultraProtectedHit patternPath rest)"

fun segmentIncludes :: "string \<Rightarrow> string list \<Rightarrow> bool" where
  "segmentIncludes pathSegment [] = False"
| "segmentIncludes pathSegment (dangerousPattern # rest) =
     (if str_find pathSegment dangerousPattern \<noteq> None then True
      else segmentIncludes pathSegment rest)"

fun anySegmentIncludes :: "string list \<Rightarrow> bool" where
  "anySegmentIncludes [] = False"
| "anySegmentIncludes (pathSegment # rest) =
     (if segmentIncludes pathSegment dangerousPatterns then True
      else anySegmentIncludes rest)"

fun combinationHit :: "string \<Rightarrow> string \<Rightarrow> string list \<Rightarrow> bool" where
  "combinationHit patternPath protectedFolder [] = False"
| "combinationHit patternPath protectedFolder (dangerousPattern # rest) =
     (if patternPath = protectedFolder @ dangerousPattern then True
      else combinationHit patternPath protectedFolder rest)"

fun protectedHit :: "string \<Rightarrow> string list \<Rightarrow> bool" where
  "protectedHit patternPath [] = False"
| "protectedHit patternPath (protectedFolder # rest) =
     (if patternPath = protectedFolder then True
      else if (if str_find patternPath protectedFolder = Some 0
               then anySegmentIncludes
                      (pathSegmentsOf (drop (length protectedFolder) patternPath))
               else False) then True
      else if combinationHit patternPath protectedFolder dangerousCombinationPatterns then True
      else protectedHit patternPath rest)"

fun segmentEquals :: "string \<Rightarrow> string list \<Rightarrow> bool" where
  "segmentEquals pathSegment [] = False"
| "segmentEquals pathSegment (dangerousPattern # rest) =
     (if pathSegment = dangerousPattern then True else segmentEquals pathSegment rest)"

fun anySegmentEquals :: "string list \<Rightarrow> bool" where
  "anySegmentEquals [] = False"
| "anySegmentEquals (pathSegment # rest) =
     (if segmentEquals pathSegment dangerousPatterns then True else anySegmentEquals rest)"

definition sdmcSegmentHit :: "string \<Rightarrow> bool" where
  "sdmcSegmentHit patternPath =
     (if str_find patternPath ''sdmc:/'' = Some 0
      then anySegmentEquals (pathSegmentsOf (drop 6 patternPath))
      else False)"

definition rootWildcardHit :: "string \<Rightarrow> bool" where
  "rootWildcardHit patternPath =
     (case str_find patternPath '':/'' of
        None \<Rightarrow> False
      | Some i \<Rightarrow> str_find (take (i + 2) patternPath) ''*'' \<noteq> None)"

fun patternHit :: "string \<Rightarrow> string list \<Rightarrow> bool" where
  "patternHit patternPath [] = False"
| "patternHit patternPath (pattern # rest) =
     (if str_find patternPath pattern \<noteq> None then True else patternHit patternPath rest)"

definition isDangerousCombination :: "string \<Rightarrow> bool" where
  "isDangerousCombination patternPath =
     (if ultraProtectedHit patternPath ultraProtectedFolders then True
      else if protectedHit patternPath protectedFolders then True
      else if sdmcSegmentHit patternPath then True
      else if rootWildcardHit patternPath then True
      else if patternHit patternPath dangerousPatterns then True
      else False)"

section \<open>CommandDispatcher: \<open>interpretAndExecuteCommand\<close>\<close>

text \<open>
  The helpers that \<open>utils.hpp\<close> takes from the other headers (\<open>path_funcs.hpp\<close>,
  \<open>hex_funcs.hpp\<close>, \<open>json_funcs.hpp\<close>, ...) and that compute a string from strings are
  parameters of the model. \<open>replaceJsonSourcePlaceholder\<close> is taken as a function of
  its two arguments, the document behind the path being held fixed.
\<close>

record collaborators =
  preprocessPath :: "string \<Rightarrow> string"
  preprocessUrl :: "string \<Rightarrow> string"
  removeQuotes :: "string \<Rightarrow> string"
  asciiToHex :: "string \<Rightarrow> string"
  decimalToHex :: "string \<Rightarrow> string"
  decimalToReversedHex :: "string \<Rightarrow> string"
  replaceJsonSourcePlaceholder :: "string \<Rightarrow> string \<Rightarrow> string"

text \<open>
  The calls that act on the world (storage, network, log, power), recorded in the order
  in which the interpreter makes them. An optional last argument is an overload of the
  C++ function with one argument less.
\<close>

datatype call =
    CreateDirectory string
  | CopyFileOrDirectoryByPattern string string
  | CopyFileOrDirectory string string
  | MirrorCopyFiles string "string option"
  | DeleteFileOrDirectoryByPattern string
  | DeleteFileOrDirectory string
  | MirrorDeleteFiles string "string option"
  | MoveFilesOrDirectoriesByPattern string string
  | MoveFileOrDirectory string string
  | SetIniFileValue string string string string
  | SetIniFileKey string string string string
  | HexEditByOffset string string string
  | HexEditByCustomOffset string string string string
  | HexEditFindReplace string string string "string option"
  | LogMessage string
  | DownloadFile string string
  | UnzipFile string string
  | SplExit
  | FsdevUnmountAll
  | SpsmShutdown nat

text \<open>
  The function declares fourteen strings before its loop. Eleven of them
  (\<open>commandName\<close>, \<open>sourcePath\<close>, \<open>destinationPath\<close>, \<open>desiredSection\<close>, \<open>desiredKey\<close>,
  \<open>offset\<close>, \<open>customPattern\<close>, \<open>hexDataToReplace\<close>, \<open>hexDataReplacement\<close>, \<open>fileUrl\<close>,
  \<open>occurrence\<close>) are assigned in every iteration before they are read, so they are
  local bindings here. The three that an iteration reads before it writes them are the
  session: \<open>jsonPath\<close> (tested with \<open>empty()\<close>), and \<open>desiredValue\<close> and \<open>desiredNewKey\<close>
  (extended with \<open>+=\<close>, never cleared).
\<close>

record session =
  jsonPath :: string
  desiredValue :: string
  desiredNewKey :: string

definition initialSession :: session where
  "initialSession = \<lparr> jsonPath = [], desiredValue = [], desiredNewKey = [] \<rparr>"

text \<open>\<open>s.c_str()\<close> handed to a callee: the bytes up to the first NUL.\<close>

definition c_str :: "string \<Rightarrow> string" where
  "c_str s = takeWhile (\<lambda>c. c \<noteq> CHR 0x00) s"

text \<open>
  The loop \<open>for (i = 4; i < command.size(); ++i)\<close> over the tokens from index 4 on
  (\<open>drop 4 command\<close>): each token is appended to the accumulator, and a space after it
  unless it is the last one (\<open>i < command.size() - 1\<close>).
\<close>

fun appendJoined :: "string \<Rightarrow> string list \<Rightarrow> string" where
  "appendJoined acc [] = acc"
| "appendJoined acc [t] = acc @ t"
| "appendJoined acc (t # u # us) = appendJoined (acc @ t @ '' '') (u # us)"

text \<open>The loop that builds \<open>modifiedCommand\<close>, and the choice of \<open>command\<close>.\<close>

fun modifyLoop :: "collaborators \<Rightarrow> string \<Rightarrow> string list \<Rightarrow> string list \<Rightarrow> string list" where
  "modifyLoop env jp [] modifiedCommand = modifiedCommand"
| "modifyLoop env jp (commandArg # rest) modifiedCommand =
     (if str_find commandArg ''{json_data('' \<noteq> None
      then modifyLoop env jp rest
             (modifiedCommand @ [replaceJsonSourcePlaceholder env commandArg jp])
      else modifyLoop env jp rest (modifiedCommand @ [commandArg]))"

definition resolveCommand :: "collaborators \<Rightarrow> string \<Rightarrow> string list \<Rightarrow> string list" where
  "resolveCommand env jp unmodifiedCommand =
     (if jp \<noteq> [] then modifyLoop env jp unmodifiedCommand [] else unmodifiedCommand)"

text \<open>
  The resolver reads the document, it does not act on the world, so its calls are not
  among the \<open>call\<close>s above. They are recorded here: the same loop under the same test
  of \<open>jsonPath\<close>, giving for every call \<open>replaceJsonSourcePlaceholder(modifiedArg, jsonPath)\<close>
  that it makes the pair of the two arguments, in the order of the calls.
\<close>

fun resolverCallsLoop :: "string \<Rightarrow> string list \<Rightarrow> (string \<times> string) list" where
  "resolverCallsLoop jp [] = []"
| "resolverCallsLoop jp (commandArg # rest) =
     (if str_find commandArg ''{json_data('' \<noteq> None
      then (commandArg, jp) # resolverCallsLoop jp rest
      else resolverCallsLoop jp rest)"

definition placeholderCalls :: "string \<Rightarrow> string list \<Rightarrow> (string \<times> string) list" where
  "placeholderCalls jp unmodifiedCommand =
     (if jp \<noteq> [] then resolverCallsLoop jp unmodifiedCommand else [])"

text \<open>
  One definition for each branch of the verb chain. A branch gives the calls it makes,
  the session after it, and whether the loop goes on to the next command.
\<close>

type_synonym outcome = "call list \<times> session \<times> bool"

definition doJsonData :: "collaborators \<Rightarrow> session \<Rightarrow> string list \<Rightarrow> outcome" where
  "doJsonData env s command =
     (if 2 \<le> length command
      then ([], s\<lparr>jsonPath := preprocessPath env (command ! 1)\<rparr>, True)
      else ([], s, True))"

definition doMake :: "collaborators \<Rightarrow> session \<Rightarrow> string list \<Rightarrow> outcome" where
  "doMake env s command =
     (if 2 \<le> length command
      then ([CreateDirectory (preprocessPath env (command ! 1))], s, True)
      else ([], s, True))"

definition doCopy :: "collaborators \<Rightarrow> session \<Rightarrow> string list \<Rightarrow> outcome" where
  "doCopy env s command =
     (if 3 \<le> length command
      then (let sourcePath = preprocessPath env (command ! 1);
                destinationPath = preprocessPath env (command ! 2)
            in if str_find sourcePath ''*'' \<noteq> None
               then ([CopyFileOrDirectoryByPattern sourcePath destinationPath], s, True)
               else ([CopyFileOrDirectory sourcePath destinationPath], s, True))
      else ([], s, True))"

definition doMirrorCopy :: "collaborators \<Rightarrow> session \<Rightarrow> string list \<Rightarrow> outcome" where
  "doMirrorCopy env s command =
     (if 2 \<le> length command
      then (let sourcePath = preprocessPath env (command ! 1)
            in if 3 \<le> length command
               then ([MirrorCopyFiles sourcePath (Some (preprocessPath env (command ! 2)))],
                     s, True)
               else ([MirrorCopyFiles sourcePath None], s, True))
      else ([], s, True))"

definition doDelete :: "collaborators \<Rightarrow> session \<Rightarrow> string list \<Rightarrow> outcome" where
  "doDelete env s command =
     (if 2 \<le> length command
      then (let sourcePath = preprocessPath env (command ! 1)
            in if \<not> isDangerousCombination sourcePath
               then (if str_find sourcePath ''*'' \<noteq> None
                     then ([DeleteFileOrDirectoryByPattern sourcePath], s, True)
                     else ([DeleteFileOrDirectory sourcePath], s, True))
               else ([], s, True))
      else ([], s, True))"

definition doMirrorDelete :: "collaborators \<Rightarrow> session \<Rightarrow> string list \<Rightarrow> outcome" where
  "doMirrorDelete env s command =
     (if 2 \<le> length command
      then (let sourcePath = preprocessPath env (command ! 1)
            in if 3 \<le> length command
               then ([MirrorDeleteFiles sourcePath (Some (preprocessPath env (command ! 2)))],
                     s, True)
               else ([MirrorDeleteFiles sourcePath None], s, True))
      else ([], s, True))"

definition doMove :: "collaborators \<Rightarrow> session \<Rightarrow> string list \<Rightarrow> outcome" where
  "doMove env s command =
     (if 3 \<le> length command
      then (let sourcePath = preprocessPath env (command ! 1);
                destinationPath = preprocessPath env (command ! 2)
            in if \<not> isDangerousCombination sourcePath
               then (if str_find sourcePath ''*'' \<noteq> None
                     then ([MoveFilesOrDirectoriesByPattern sourcePath destinationPath],
                           s, True)
                     else ([MoveFileOrDirectory sourcePath destinationPath], s, True))
               else ([], s, True))
      else ([], s, True))"

definition doSetIniVal :: "collaborators \<Rightarrow> session \<Rightarrow> string list \<Rightarrow> outcome" where
  "doSetIniVal env s command =
     (if 5 \<le> length command
      then (let sourcePath = preprocessPath env (command ! 1);
                desiredSection = removeQuotes env (command ! 2);
                desiredKey = removeQuotes env (command ! 3);
                desiredValue' = appendJoined (desiredValue s) (drop 4 command)
            in ([SetIniFileValue (c_str sourcePath) (c_str desiredSection)
                   (c_str desiredKey) (c_str desiredValue')],
                s\<lparr>desiredValue := desiredValue'\<rparr>, True))
      else ([], s, True))"

definition doSetIniKey :: "collaborators \<Rightarrow> session \<Rightarrow> string list \<Rightarrow> outcome" where
  "doSetIniKey env s command =
     (if 5 \<le> length command
      then (let sourcePath = preprocessPath env (command ! 1);
                desiredSection = removeQuotes env (command ! 2);
                desiredKey = removeQuotes env (command ! 3);
                desiredNewKey' = appendJoined (desiredNewKey s) (drop 4 command)
            in ([SetIniFileKey (c_str sourcePath) (c_str desiredSection)
                   (c_str desiredKey) (c_str desiredNewKey')],
                s\<lparr>desiredNewKey := desiredNewKey'\<rparr>, True))
      else ([], s, True))"

definition doHexByOffset :: "collaborators \<Rightarrow> session \<Rightarrow> string list \<Rightarrow> outcome" where
  "doHexByOffset env s command =
     (if 4 \<le> length command
      then (let sourcePath = preprocessPath env (command ! 1);
                offset = removeQuotes env (command ! 2);
                hexDataReplacement = removeQuotes env (command ! 3)
            in ([HexEditByOffset (c_str sourcePath) (c_str offset) (c_str hexDataReplacement)],
                s, True))
      else ([], s, True))"

definition doHexByCustomOffset :: "collaborators \<Rightarrow> session \<Rightarrow> string list \<Rightarrow> outcome" where
  "doHexByCustomOffset env s command =
     (if 5 \<le> length command
      then (let sourcePath = preprocessPath env (command ! 1);
                customPattern = removeQuotes env (command ! 2);
                offset = removeQuotes env (command ! 3);
                hexDataReplacement = removeQuotes env (command ! 4)
            in ([HexEditByCustomOffset (c_str sourcePath) (c_str customPattern)
                   (c_str offset) (c_str hexDataReplacement)], s, True))
      else ([], s, True))"

text \<open>
  The tail shared by the four find-and-replace verbs: with a fifth token the call has
  the occurrence argument, otherwise the three-argument overload is called.
\<close>

definition findReplaceCall ::
  "collaborators \<Rightarrow> string list \<Rightarrow> string \<Rightarrow> string \<Rightarrow> string \<Rightarrow> call" where
  "findReplaceCall env command sourcePath hexDataToReplace hexDataReplacement =
     (if 5 \<le> length command
      then HexEditFindReplace sourcePath hexDataToReplace hexDataReplacement
             (Some (removeQuotes env (command ! 4)))
      else HexEditFindReplace sourcePath hexDataToReplace hexDataReplacement None)"

definition doHexBySwap :: "collaborators \<Rightarrow> session \<Rightarrow> string list \<Rightarrow> outcome" where
  "doHexBySwap env s command =
     (if 4 \<le> length command
      then (let sourcePath = preprocessPath env (command ! 1);
                hexDataToReplace = removeQuotes env (command ! 2);
                hexDataReplacement = removeQuotes env (command ! 3)
            in ([findReplaceCall env command sourcePath hexDataToReplace hexDataReplacement],
                s, True))
      else ([], s, True))"

text \<open>
  "Fix miss-matched string sizes": the shorter of the two encoded strings gets
  \<open>std::string(n, '\0')\<close> appended, \<open>n\<close> being the difference of the two
  \<open>length()\<close>s. The pair is (\<open>hexDataToReplace\<close>, \<open>hexDataReplacement\<close>).
\<close>

definition fixSizes :: "string \<Rightarrow> string \<Rightarrow> string \<times> string" where
  "fixSizes hexDataToReplace hexDataReplacement =
     (if length hexDataReplacement < length hexDataToReplace
      then (hexDataToReplace,
            hexDataReplacement
              @ replicate (length hexDataToReplace - length hexDataReplacement) (CHR 0x00))
      else if length hexDataToReplace < length hexDataReplacement
      then (hexDataToReplace
              @ replicate (length hexDataReplacement - length hexDataToReplace) (CHR 0x00),
            hexDataReplacement)
      else (hexDataToReplace, hexDataReplacement))"

definition doHexByString :: "collaborators \<Rightarrow> session \<Rightarrow> string list \<Rightarrow> outcome" where
  "doHexByString env s command =
     (if 4 \<le> length command
      then (let sourcePath = preprocessPath env (command ! 1)
            in case fixSizes (asciiToHex env (removeQuotes env (command ! 2)))
                             (asciiToHex env (removeQuotes env (command ! 3))) of
                 (hexDataToReplace, hexDataReplacement) \<Rightarrow>
                   ([findReplaceCall env command sourcePath hexDataToReplace hexDataReplacement],
                    s, True))
      else ([], s, True))"

definition doHexByDecimal :: "collaborators \<Rightarrow> session \<Rightarrow> string list \<Rightarrow> outcome" where
  "doHexByDecimal env s command =
     (if 4 \<le> length command
      then (let sourcePath = preprocessPath env (command ! 1);
                hexDataToReplace = decimalToHex env (removeQuotes env (command ! 2));
                hexDataReplacement = decimalToHex env (removeQuotes env (command ! 3))
            in ([findReplaceCall env command sourcePath hexDataToReplace hexDataReplacement],
                s, True))
      else ([], s, True))"

definition doHexByRdecimal :: "collaborators \<Rightarrow> session \<Rightarrow> string list \<Rightarrow> outcome" where
  "doHexByRdecimal env s command =
     (if 4 \<le> length command
      then (let sourcePath = preprocessPath env (command ! 1);
                hexDataToReplace = decimalToReversedHex env (removeQuotes env (command ! 2));
                hexDataReplacement = decimalToReversedHex env (removeQuotes env (command ! 3))
            in ([findReplaceCall env command sourcePath hexDataToReplace hexDataReplacement],
                s, True))
      else ([], s, True))"

definition doDownload :: "collaborators \<Rightarrow> session \<Rightarrow> string list \<Rightarrow> outcome" where
  "doDownload env s command =
     (if 3 \<le> length command
      then (let fileUrl = preprocessUrl env (command ! 1);
                destinationPath = preprocessPath env (command ! 2)
            in ([LogMessage (''fileUrl: '' @ fileUrl), DownloadFile fileUrl destinationPath],
                s, True))
      else ([], s, True))"

definition doUnzip :: "collaborators \<Rightarrow> session \<Rightarrow> string list \<Rightarrow> outcome" where
  "doUnzip env s command =
     (if 3 \<le> length command
      then ([UnzipFile (preprocessPath env (command ! 1)) (preprocessPath env (command ! 2))],
            s, True)
      else ([], s, True))"

definition SpsmShutdownMode_Normal :: nat where
  "SpsmShutdownMode_Normal = 0"

definition SpsmShutdownMode_Reboot :: nat where
  "SpsmShutdownMode_Reboot = 1"

text \<open>
  Modelled from the spec: \<open>spsmShutdown\<close>, a service call of the platform library,
  which is not among the sources. The three calls and their order are the source's.
  That control does not come back from the last one is the specification's: "all
  storage volumes are unmounted and the power state transitions; the process does not
  resume", and the interpreter "never returns if a terminal power command executed".
  Hence the third component \<open>False\<close>: after this branch the loop does not go on.
\<close>

definition doPower :: "collaborators \<Rightarrow> session \<Rightarrow> nat \<Rightarrow> outcome" where
  "doPower env s mode = ([SplExit, FsdevUnmountAll, SpsmShutdown mode], s, False)"

text \<open>
  The \<open>if\<close>/\<open>else if\<close> chain on \<open>commandName\<close>, in the order of the source. A verb that
  no branch names falls off the end of the chain.
\<close>

definition dispatch :: "collaborators \<Rightarrow> session \<Rightarrow> string \<Rightarrow> string list \<Rightarrow> outcome" where
  "dispatch env s commandName command =
     (if commandName = ''json_data'' then doJsonData env s command
      else if commandName = ''make'' \<or> commandName = ''mkdir'' then doMake env s command
      else if commandName = ''copy'' \<or> commandName = ''cp'' then doCopy env s command
      else if commandName = ''mirror_copy'' \<or> commandName = ''mirror_cp''
      then doMirrorCopy env s command
      else if commandName = ''delete'' \<or> commandName = ''del'' then doDelete env s command
      else if commandName = ''mirror_delete'' \<or> commandName = ''mirror_del''
      then doMirrorDelete env s command
      else if commandName = ''rename'' \<or> commandName = ''move'' \<or> commandName = ''mv''
      then doMove env s command
      else if commandName = ''set-ini-val'' \<or> commandName = ''set-ini-value''
      then doSetIniVal env s command
      else if commandName = ''set-ini-key'' then doSetIniKey env s command
      else if commandName = ''hex-by-offset'' then doHexByOffset env s command
      else if commandName = ''hex-by-custom-offset'' then doHexByCustomOffset env s command
      else if commandName = ''hex-by-swap'' then doHexBySwap env s command
      else if commandName = ''hex-by-string'' then doHexByString env s command
      else if commandName = ''hex-by-decimal'' then doHexByDecimal env s command
      else if commandName = ''hex-by-rdecimal'' then doHexByRdecimal env s command
      else if commandName = ''download'' then doDownload env s command
      else if commandName = ''unzip'' then doUnzip env s command
      else if commandName = ''reboot'' then doPower env s SpsmShutdownMode_Reboot
      else if commandName = ''shutdown'' then doPower env s SpsmShutdownMode_Normal
      else ([], s, True))"

text \<open>
  The body of the loop for a non-empty command: \<open>commandName\<close> is token 0 of the command
  as given, the operands come from the command after placeholder replacement.
\<close>

definition executeOne :: "collaborators \<Rightarrow> session \<Rightarrow> string list \<Rightarrow> outcome" where
  "executeOne env s unmodifiedCommand =
     dispatch env s (unmodifiedCommand ! 0)
       (resolveCommand env (jsonPath s) unmodifiedCommand)"

text \<open>
  The \<open>for\<close> loop over \<open>commands\<close>. An empty command is skipped (\<open>continue\<close>). The loop
  has no \<open>break\<close> and no \<open>return\<close>: it stops early only if a call does not give control
  back.
\<close>

fun commandLoop :: "collaborators \<Rightarrow> session \<Rightarrow> string list list \<Rightarrow> call list \<times> session" where
  "commandLoop env s [] = ([], s)"
| "commandLoop env s (unmodifiedCommand # rest) =
     (if unmodifiedCommand = [] then commandLoop env s rest
      else case executeOne env s unmodifiedCommand of
             (calls, s', resumed) \<Rightarrow>
               if resumed
               then (case commandLoop env s' rest of (calls', s'') \<Rightarrow> (calls @ calls', s''))
               else (calls, s'))"

definition interpretAndExecuteCommand :: "collaborators \<Rightarrow> string list list \<Rightarrow> call list" where
  "interpretAndExecuteCommand env commands = fst (commandLoop env initialSession commands)"

section \<open>The specification's vocabulary\<close>

text \<open>
  "Joined with single spaces", as the specification's table words the value of
  \<open>set-ini-val\<close> and the new key of \<open>set-ini-key\<close>.
\<close>

fun joinWithSpaces :: "string list \<Rightarrow> string" where
  "joinWithSpaces [] = []"
| "joinWithSpaces [t] = t"
| "joinWithSpaces (t # u # us) = t @ '' '' @ joinWithSpaces (u # us)"

text \<open>The "min tokens" column of the specification's verb table.\<close>

definition minTokens :: "(string \<times> nat) list" where
  "minTokens =
     [(''json_data'', 2), (''make'', 2), (''mkdir'', 2), (''copy'', 3), (''cp'', 3),
      (''mirror_copy'', 2), (''mirror_cp'', 2), (''delete'', 2), (''del'', 2),
      (''mirror_delete'', 2), (''mirror_del'', 2), (''rename'', 3), (''move'', 3),
      (''mv'', 3), (''set-ini-val'', 5), (''set-ini-value'', 5), (''set-ini-key'', 5),
      (''hex-by-offset'', 4), (''hex-by-custom-offset'', 5), (''hex-by-swap'', 4),
      (''hex-by-string'', 4), (''hex-by-decimal'', 4), (''hex-by-rdecimal'', 4),
      (''download'', 3), (''unzip'', 3), (''reboot'', 0), (''shutdown'', 0)]"

text \<open>The verbs that the chain in \<open>dispatch\<close> compares \<open>commandName\<close> with.\<close>

definition recognizedVerbs :: "string list" where
  "recognizedVerbs =
     [''json_data'', ''make'', ''mkdir'', ''copy'', ''cp'', ''mirror_copy'', ''mirror_cp'',
      ''delete'', ''del'', ''mirror_delete'', ''mirror_del'', ''rename'', ''move'', ''mv'',
      ''set-ini-val'', ''set-ini-value'', ''set-ini-key'', ''hex-by-offset'',
      ''hex-by-custom-offset'', ''hex-by-swap'', ''hex-by-string'', ''hex-by-decimal'',
      ''hex-by-rdecimal'', ''download'', ''unzip'', ''reboot'', ''shutdown'']"

definition powerVerbs :: "string list" where
  "powerVerbs = [''reboot'', ''shutdown'']"

text \<open>A command "whose verb is \<open>reboot\<close> or \<open>shutdown\<close>".\<close>

definition isPowerCommand :: "string list \<Rightarrow> bool" where
  "isPowerCommand c = (if c = [] then False else c ! 0 \<in> set powerVerbs)"

text \<open>The verbs whose source path goes through \<open>isDangerousCombination\<close>.\<close>

definition guardedVerbs :: "string list" where
  "guardedVerbs = [''delete'', ''del'', ''rename'', ''move'', ''mv'']"

section \<open>Stand-ins for the collaborators\<close>

text \<open>
  Modelled from the spec: \<open>asciiToHex\<close> of \<open>hex_funcs.hpp\<close>, which is not among the
  sources. The specification calls it the ASCII-to-hex conversion "turning user-authored
  literal operands into byte-hex strings": every byte of the operand becomes its two
  hexadecimal digits.
\<close>

definition hexDigit :: "nat \<Rightarrow> char" where
  "hexDigit n = ''0123456789abcdef'' ! n"

fun asciiToHexModel :: "string \<Rightarrow> string" where
  "asciiToHexModel [] = []"
| "asciiToHexModel (c # cs) =
     hexDigit (of_char c div 16) # hexDigit (of_char c mod 16) # asciiToHexModel cs"

text \<open>
  Concrete collaborators for running the interpreter on examples: the path, URL, quote
  and number helpers give their argument back, and the placeholder resolver answers with
  the document path in angle brackets. \<open>hexCollaborators\<close> has the model above for
  \<open>asciiToHex\<close>.
\<close>

definition plainCollaborators :: collaborators where
  "plainCollaborators =
     \<lparr> preprocessPath = (\<lambda>p. p),
       preprocessUrl = (\<lambda>u. u),
       removeQuotes = (\<lambda>q. q),
       asciiToHex = (\<lambda>a. a),
       decimalToHex = (\<lambda>d. d),
       decimalToReversedHex = (\<lambda>d. d),
       replaceJsonSourcePlaceholder = (\<lambda>arg path. ''<'' @ path @ ''>'') \<rparr>"

definition hexCollaborators :: collaborators where
  "hexCollaborators = plainCollaborators\<lparr>asciiToHex := asciiToHexModel\<rparr>"


section \<open>Facts about the string primitives\<close>

lemma starts_with_append: "starts_with (p @ s) p"
  by (induction p) simp_all

lemma starts_with_iff: "starts_with s p \<longleftrightarrow> (\<exists>t. s = p @ t)"
  by (induction s p rule: starts_with.induct) auto

lemma str_find_starts_with: "starts_with s p \<Longrightarrow> str_find s p = Some 0"
  by (cases s; cases p) simp_all

lemma str_find_prefix: "str_find (p @ s) p = Some 0"
  by (rule str_find_starts_with) (rule starts_with_append)

lemma str_find_infix: "str_find (a @ p @ b) p \<noteq> None"
proof (induction a)
  case Nil
  show ?case by (simp add: str_find_prefix)
next
  case (Cons c a)
  then show ?case by simp
qed

lemma str_find_found: "str_find s p = Some i \<Longrightarrow> take (length p) (drop i s) = p"
proof (induction s arbitrary: i)
  case Nil
  then show ?case by (simp split: if_splits)
next
  case (Cons c cs)
  show ?case
  proof (cases "starts_with (c # cs) p")
    case True
    then obtain t where "c # cs = p @ t" by (auto simp: starts_with_iff)
    moreover from True Cons.prems have "i = 0" by simp
    ultimately show ?thesis by simp
  next
    case False
    with Cons.prems obtain j where "str_find cs p = Some j" "i = Suc j" by auto
    with Cons.IH show ?thesis by simp
  qed
qed

text \<open>\<open>find(pat) != npos\<close> says that \<open>pat\<close> occurs somewhere in the string.\<close>

lemma str_find_contains: "str_find s p \<noteq> None \<longleftrightarrow> (\<exists>a b. s = a @ p @ b)"
proof
  assume "str_find s p \<noteq> None"
  then obtain i where i: "str_find s p = Some i" by auto
  have "s = take i s @ drop i s"
    by (rule append_take_drop_id [symmetric])
  also have "drop i s = take (length p) (drop i s) @ drop (length p) (drop i s)"
    by (rule append_take_drop_id [symmetric])
  also have "take (length p) (drop i s) = p"
    by (rule str_find_found [OF i])
  finally have "s = take i s @ p @ drop (length p) (drop i s)" .
  then show "\<exists>a b. s = a @ p @ b" by blast
next
  assume "\<exists>a b. s = a @ p @ b"
  then obtain a b where "s = a @ p @ b" by blast
  then show "str_find s p \<noteq> None" using str_find_infix [of a p b] by simp
qed

lemma str_find_Some_iff: "(\<exists>i. str_find s p = Some i) \<longleftrightarrow> (\<exists>a b. s = a @ p @ b)"
  using str_find_contains [of s p] by simp

section \<open>Facts about the guard\<close>

lemma patternHit_iff: "patternHit p pats \<longleftrightarrow> (\<exists>pat \<in> set pats. str_find p pat \<noteq> None)"
  by (induction pats) auto

lemma ultraProtectedHit_iff:
  "ultraProtectedHit p us \<longleftrightarrow> (\<exists>u \<in> set us. str_find p u = Some 0)"
  by (induction us) auto

text \<open>
  Claim C3. Every path that starts with one of the two ultra-protected folders,
  \<open>sdmc:/Nintendo/\<close> or \<open>sdmc:/emuMMC/\<close>, is dangerous, whatever follows the folder.
\<close>

theorem C3_ultra_protected_prefix_dangerous:
  "isDangerousCombination (''sdmc:/Nintendo/'' @ suffix) \<and>
   isDangerousCombination (''sdmc:/emuMMC/'' @ suffix)"
proof -
  have "ultraProtectedHit (u @ suffix) ultraProtectedFolders"
    if "u \<in> set ultraProtectedFolders" for u
    using that str_find_prefix [of u suffix] by (auto simp: ultraProtectedHit_iff)
  then have hit: "isDangerousCombination (u @ suffix)"
    if "u \<in> set ultraProtectedFolders" for u
    using that by (simp add: isDangerousCombination_def)
  have "isDangerousCombination (''sdmc:/Nintendo/'' @ suffix)"
    by (rule hit) (simp add: ultraProtectedFolders_def)
  moreover have "isDangerousCombination (''sdmc:/emuMMC/'' @ suffix)"
    by (rule hit) (simp add: ultraProtectedFolders_def)
  ultimately show ?thesis by (rule conjI)
qed

text \<open>The same at two concrete suffixes, one of them a wildcard.\<close>

theorem C3_ultra_protected_prefix_dangerous_witness:
  "isDangerousCombination ''sdmc:/Nintendo/Album/2023/'' \<and>
   isDangerousCombination ''sdmc:/emuMMC/Album/2023/''"
  using C3_ultra_protected_prefix_dangerous [of "''Album/2023/''"] by simp

text \<open>
  Claim C4. \<open>sdmc:/switch/*\<close>, a wildcard directly at a protected root, is dangerous;
  \<open>sdmc:/switch/sub/*\<close>, a wildcard one level below it, is not.
\<close>

theorem C4_wildcard_at_root_and_nested:
  "isDangerousCombination ''sdmc:/switch/*'' \<and>
   \<not> isDangerousCombination ''sdmc:/switch/sub/*''"
  by (simp add: isDangerousCombination_def ultraProtectedFolders_def protectedFolders_def
      dangerousCombinationPatterns_def dangerousPatterns_def pathSegmentsOf_def
      sdmcSegmentHit_def rootWildcardHit_def)

text \<open>
  Claim C9. A path in which \<open>..\<close> or \<open>~\<close> occurs anywhere is dangerous, with no
  condition on where the path lies: every exit of the function before its last loop
  returns true, and the last loop finds the token.
\<close>

theorem C9_traversal_or_home_token_dangerous:
  assumes "patternPath = a @ ''..'' @ b \<or> patternPath = a @ ''~'' @ b"
  shows "isDangerousCombination patternPath"
proof -
  from assms have "str_find patternPath ''..'' \<noteq> None \<or> str_find patternPath ''~'' \<noteq> None"
    using str_find_infix [of a "''..''" b] str_find_infix [of a "''~''" b] by auto
  then have "patternHit patternPath dangerousPatterns"
    by (auto simp: patternHit_iff dangerousPatterns_def)
  then show ?thesis by (simp add: isDangerousCombination_def)
qed

text \<open>A path on another volume, outside every protected folder, with \<open>..\<close> inside a name.\<close>

theorem C9_traversal_or_home_token_dangerous_witness:
  "(''usb:/a..b'' = ''usb:/a'' @ ''..'' @ ''b'' \<or> ''usb:/a..b'' = ''usb:/a'' @ ''~'' @ ''b'')
   \<and> isDangerousCombination ''usb:/a..b''"
  using C9_traversal_or_home_token_dangerous [of "''usb:/a..b''" "''usb:/a''" "''b''"]
  by simp

section \<open>Facts about the dispatcher\<close>

lemma appendJoined_eq: "appendJoined acc ts = acc @ joinWithSpaces ts"
  by (induction acc ts rule: appendJoined.induct) simp_all

lemma modifyLoop_eq:
  "modifyLoop env jp cmd acc =
     acc @ map (\<lambda>a. if str_find a ''{json_data('' \<noteq> None
                     then replaceJsonSourcePlaceholder env a jp else a) cmd"
  by (induction cmd arbitrary: acc) simp_all

lemma length_resolveCommand: "length (resolveCommand env jp cmd) = length cmd"
  by (simp add: resolveCommand_def modifyLoop_eq)

lemmas branch_defs =
  doJsonData_def doMake_def doCopy_def doMirrorCopy_def doDelete_def doMirrorDelete_def
  doMove_def doSetIniVal_def doSetIniKey_def doHexByOffset_def doHexByCustomOffset_def
  doHexBySwap_def doHexByString_def doHexByDecimal_def doHexByRdecimal_def doDownload_def
  doUnzip_def doPower_def

lemma dispatch_verbs:
  "dispatch env s ''json_data'' c = doJsonData env s c"
  "dispatch env s ''make'' c = doMake env s c"
  "dispatch env s ''mkdir'' c = doMake env s c"
  "dispatch env s ''copy'' c = doCopy env s c"
  "dispatch env s ''cp'' c = doCopy env s c"
  "dispatch env s ''mirror_copy'' c = doMirrorCopy env s c"
  "dispatch env s ''mirror_cp'' c = doMirrorCopy env s c"
  "dispatch env s ''delete'' c = doDelete env s c"
  "dispatch env s ''del'' c = doDelete env s c"
  "dispatch env s ''mirror_delete'' c = doMirrorDelete env s c"
  "dispatch env s ''mirror_del'' c = doMirrorDelete env s c"
  "dispatch env s ''rename'' c = doMove env s c"
  "dispatch env s ''move'' c = doMove env s c"
  "dispatch env s ''mv'' c = doMove env s c"
  "dispatch env s ''set-ini-val'' c = doSetIniVal env s c"
  "dispatch env s ''set-ini-value'' c = doSetIniVal env s c"
  "dispatch env s ''set-ini-key'' c = doSetIniKey env s c"
  "dispatch env s ''hex-by-offset'' c = doHexByOffset env s c"
  "dispatch env s ''hex-by-custom-offset'' c = doHexByCustomOffset env s c"
  "dispatch env s ''hex-by-swap'' c = doHexBySwap env s c"
  "dispatch env s ''hex-by-string'' c = doHexByString env s c"
  "dispatch env s ''hex-by-decimal'' c = doHexByDecimal env s c"
  "dispatch env s ''hex-by-rdecimal'' c = doHexByRdecimal env s c"
  "dispatch env s ''download'' c = doDownload env s c"
  "dispatch env s ''unzip'' c = doUnzip env s c"
  "dispatch env s ''reboot'' c = doPower env s SpsmShutdownMode_Reboot"
  "dispatch env s ''shutdown'' c = doPower env s SpsmShutdownMode_Normal"
  by (simp_all add: dispatch_def)

lemma dispatch_unrecognized:
  "v \<notin> set recognizedVerbs \<Longrightarrow> dispatch env s v c = ([], s, True)"
  by (simp add: dispatch_def recognizedVerbs_def)

text \<open>Only the two power branches can keep the loop from going on.\<close>

lemma branches_resume:
  "snd (snd (doJsonData env s c))"
  "snd (snd (doMake env s c))"
  "snd (snd (doCopy env s c))"
  "snd (snd (doMirrorCopy env s c))"
  "snd (snd (doDelete env s c))"
  "snd (snd (doMirrorDelete env s c))"
  "snd (snd (doMove env s c))"
  "snd (snd (doSetIniVal env s c))"
  "snd (snd (doSetIniKey env s c))"
  "snd (snd (doHexByOffset env s c))"
  "snd (snd (doHexByCustomOffset env s c))"
  "snd (snd (doHexBySwap env s c))"
  "snd (snd (doHexByString env s c))"
  "snd (snd (doHexByDecimal env s c))"
  "snd (snd (doHexByRdecimal env s c))"
  "snd (snd (doDownload env s c))"
  "snd (snd (doUnzip env s c))"
  by (simp_all add: branch_defs Let_def split: prod.split)

lemma dispatch_resumes: "v \<notin> set powerVerbs \<Longrightarrow> snd (snd (dispatch env s v c))"
  by (simp add: dispatch_def powerVerbs_def branches_resume)

lemma commandLoop_skip:
  "executeOne env s cmd = ([], s, True) \<Longrightarrow>
   commandLoop env s (cmd # rest) = commandLoop env s rest"
  by (cases "commandLoop env s rest") simp

lemma commandLoop_resumed:
  assumes "cmd \<noteq> []" and "snd (snd (executeOne env s cmd))"
  shows "commandLoop env s (cmd # rest) =
           (fst (executeOne env s cmd)
              @ fst (commandLoop env (fst (snd (executeOne env s cmd))) rest),
            snd (commandLoop env (fst (snd (executeOne env s cmd))) rest))"
proof -
  obtain calls s' resumed where ex: "executeOne env s cmd = (calls, s', resumed)"
    by (cases "executeOne env s cmd") auto
  with assms(2) have "resumed" by simp
  with ex assms(1) show ?thesis by (simp split: prod.split)
qed

lemma commandLoop_power:
  assumes "isPowerCommand c"
  shows "commandLoop env s (c # post) =
           ([SplExit, FsdevUnmountAll,
             SpsmShutdown (if c ! 0 = ''reboot'' then SpsmShutdownMode_Reboot
                           else SpsmShutdownMode_Normal)], s)"
  using assms
  by (auto simp: isPowerCommand_def powerVerbs_def executeOne_def dispatch_verbs doPower_def
      split: if_splits)

lemma fixSizes_eq:
  "fixSizes a b =
     (a @ replicate (length b - length a) (CHR 0x00),
      b @ replicate (length a - length b) (CHR 0x00))"
  by (simp add: fixSizes_def)

lemma replicate_small:
  "replicate 2 c = [c, c]"
  "replicate 4 c = [c, c, c, c]"
  by (simp_all add: numeral_eq_Suc)

text \<open>
  What \<open>set-ini-val\<close> hands to \<open>setIniFileValue\<close> in general: the accumulator as the
  earlier commands left it, followed by the joined tokens of this command.
\<close>

lemma doSetIniVal_value:
  assumes "5 \<le> length command"
  shows "doSetIniVal env s command =
           ([SetIniFileValue (c_str (preprocessPath env (command ! 1)))
               (c_str (removeQuotes env (command ! 2)))
               (c_str (removeQuotes env (command ! 3)))
               (c_str (desiredValue s @ joinWithSpaces (drop 4 command)))],
            s\<lparr>desiredValue := desiredValue s @ joinWithSpaces (drop 4 command)\<rparr>, True)"
  using assms by (simp add: doSetIniVal_def appendJoined_eq Let_def)

section \<open>The claims about the dispatcher\<close>

text \<open>
  Claim C1. The value that \<open>set-ini-val\<close> passes to \<open>setIniFileValue\<close> should be the
  tokens from index 4 on, joined with single spaces, whatever ran before. The code
  appends them to \<open>desiredValue\<close>, which is declared before the loop and never cleared:
  in a list of two \<open>set-ini-val\<close> commands with the values \<open>v1\<close> and \<open>v2\<close>, the second
  call receives \<open>v1v2\<close>, while the tokens of the second command join to \<open>v2\<close>.
\<close>

theorem C1_set_ini_val_accumulates:
  "interpretAndExecuteCommand env
     [[''set-ini-val'', ''a.ini'', ''s'', ''k'', ''v1''],
      [''set-ini-val'', ''a.ini'', ''s'', ''k'', ''v2'']] =
     [SetIniFileValue (c_str (preprocessPath env ''a.ini'')) (c_str (removeQuotes env ''s''))
        (c_str (removeQuotes env ''k'')) ''v1'',
      SetIniFileValue (c_str (preprocessPath env ''a.ini'')) (c_str (removeQuotes env ''s''))
        (c_str (removeQuotes env ''k'')) ''v1v2'']
   \<and> joinWithSpaces (drop 4 [''set-ini-val'', ''a.ini'', ''s'', ''k'', ''v2'']) = ''v2''"
  by (simp add: interpretAndExecuteCommand_def initialSession_def executeOne_def
      resolveCommand_def dispatch_verbs doSetIniVal_def c_str_def Let_def)

text \<open>
  Claim C2, as the code has it. For \<open>delete\<close>, \<open>del\<close>, \<open>rename\<close>, \<open>move\<close> and \<open>mv\<close>, a
  command whose preprocessed source path (token 1 after placeholder replacement) is
  dangerous makes no call at all and leaves the session as it was.
\<close>

theorem C2_guarded_destructive_noop:
  assumes "cmd \<noteq> []"
    and "cmd ! 0 \<in> set guardedVerbs"
    and "2 \<le> length cmd"
    and "isDangerousCombination
           (preprocessPath env (resolveCommand env (jsonPath s) cmd ! 1))"
  shows "executeOne env s cmd = ([], s, True)"
  using assms
  by (auto simp: guardedVerbs_def executeOne_def dispatch_verbs doDelete_def doMove_def
      Let_def)

text \<open>\<open>delete\<close> on an ultra-protected folder.\<close>

theorem C2_guarded_destructive_noop_witness:
  "[''delete'', ''sdmc:/Nintendo/''] \<noteq> []
   \<and> [''delete'', ''sdmc:/Nintendo/''] ! 0 \<in> set guardedVerbs
   \<and> 2 \<le> length [''delete'', ''sdmc:/Nintendo/'']
   \<and> isDangerousCombination
        (preprocessPath plainCollaborators
           (resolveCommand plainCollaborators (jsonPath initialSession)
              [''delete'', ''sdmc:/Nintendo/''] ! 1))
   \<and> executeOne plainCollaborators initialSession [''delete'', ''sdmc:/Nintendo/'']
        = ([], initialSession, True)"
proof -
  have v: "[''delete'', ''sdmc:/Nintendo/''] ! 0 \<in> set guardedVerbs"
    by (simp add: guardedVerbs_def)
  have d: "isDangerousCombination
        (preprocessPath plainCollaborators
           (resolveCommand plainCollaborators (jsonPath initialSession)
              [''delete'', ''sdmc:/Nintendo/''] ! 1))"
    by (simp add: plainCollaborators_def resolveCommand_def initialSession_def
        isDangerousCombination_def ultraProtectedFolders_def)
  show ?thesis
    using v d C2_guarded_destructive_noop [of "[''delete'', ''sdmc:/Nintendo/'']"
        plainCollaborators initialSession]
    by simp
qed

text \<open>
  Claim C2 as stated also names \<open>mirror_delete\<close> and \<open>mirror_del\<close>. Their branch does
  not consult the guard: on the same dangerous path \<open>mirrorDeleteFiles\<close> is called.
\<close>

theorem C2_mirror_delete_counterexample:
  "isDangerousCombination
     (preprocessPath plainCollaborators
        (resolveCommand plainCollaborators (jsonPath initialSession)
           [''mirror_delete'', ''sdmc:/Nintendo/''] ! 1))
   \<and> executeOne plainCollaborators initialSession [''mirror_delete'', ''sdmc:/Nintendo/'']
        = ([MirrorDeleteFiles ''sdmc:/Nintendo/'' None], initialSession, True)"
  by (simp add: plainCollaborators_def resolveCommand_def initialSession_def
      isDangerousCombination_def ultraProtectedFolders_def executeOne_def dispatch_verbs
      doMirrorDelete_def)

text \<open>
  Claim C5, as the code has it. A \<open>hex-by-string\<close> command with at least 4 tokens makes
  exactly one \<open>hexEditFindReplace\<close> call. With \<open>a\<close> and \<open>b\<close> the encoded find and
  replace operands, the shorter of the two strings is extended at its right end by NUL
  characters, as many as the lengths of the two encoded strings differ, so both
  operands of the call have the length of the longer one.
\<close>

theorem C5_hex_by_string_padding:
  assumes "cmd \<noteq> []" and "cmd ! 0 = ''hex-by-string''" and "4 \<le> length cmd"
    and "command = resolveCommand env (jsonPath s) cmd"
    and "a = asciiToHex env (removeQuotes env (command ! 2))"
    and "b = asciiToHex env (removeQuotes env (command ! 3))"
  shows "executeOne env s cmd =
           ([HexEditFindReplace (preprocessPath env (command ! 1))
               (a @ replicate (length b - length a) (CHR 0x00))
               (b @ replicate (length a - length b) (CHR 0x00))
               (if 5 \<le> length cmd then Some (removeQuotes env (command ! 4)) else None)],
            s, True)
         \<and> length (a @ replicate (length b - length a) (CHR 0x00))
             = length (b @ replicate (length a - length b) (CHR 0x00))
         \<and> length (a @ replicate (length b - length a) (CHR 0x00))
             = max (length a) (length b)"
  using assms
  by (auto simp: executeOne_def dispatch_verbs doHexByString_def fixSizes_eq
      findReplaceCall_def length_resolveCommand Let_def)

text \<open>
  \<open>AB\<close> against \<open>ABCD\<close> with two hexadecimal digits for a byte: the encoded strings
  have 4 and 8 characters, and the shorter one gets 4 NUL characters.
\<close>

theorem C5_hex_by_string_padding_witness:
  "executeOne hexCollaborators initialSession [''hex-by-string'', ''f'', ''AB'', ''ABCD'']
     = ([HexEditFindReplace ''f'' (''4142'' @ replicate 4 (CHR 0x00)) ''41424344'' None],
        initialSession, True)"
  using C5_hex_by_string_padding [of "[''hex-by-string'', ''f'', ''AB'', ''ABCD'']"
      "[''hex-by-string'', ''f'', ''AB'', ''ABCD'']" hexCollaborators initialSession
      "''4142''" "''41424344''"]
  by (simp add: hexCollaborators_def plainCollaborators_def resolveCommand_def
      initialSession_def hexDigit_def replicate_small)

text \<open>
  Claim C5 as stated has 2 trailing null bytes for this example. The find operand
  that the code passes is neither the encoded \<open>AB\<close> followed by 2 NUL characters nor
  the encoding of \<open>AB\<close> followed by two null bytes.
\<close>

theorem C5_two_null_bytes_counterexample:
  "executeOne hexCollaborators initialSession [''hex-by-string'', ''f'', ''AB'', ''ABCD'']
     \<noteq> ([HexEditFindReplace ''f'' (asciiToHexModel ''AB'' @ replicate 2 (CHR 0x00))
           (asciiToHexModel ''ABCD'') None], initialSession, True)
   \<and> executeOne hexCollaborators initialSession [''hex-by-string'', ''f'', ''AB'', ''ABCD'']
     \<noteq> ([HexEditFindReplace ''f'' (asciiToHexModel (''AB'' @ replicate 2 (CHR 0x00)))
           (asciiToHexModel ''ABCD'') None], initialSession, True)"
  by (simp add: hexCollaborators_def plainCollaborators_def resolveCommand_def
      initialSession_def executeOne_def dispatch_verbs doHexByString_def fixSizes_def
      findReplaceCall_def hexDigit_def replicate_small)

text \<open>What the loop does with the command at the head of a list.\<close>

lemma commandLoop_next:
  "commandLoop env s (nxt # later) =
     (if nxt = [] then commandLoop env s later
      else case executeOne env s nxt of
             (calls, s', resumed) \<Rightarrow>
               if resumed
               then (calls @ fst (commandLoop env s' later), snd (commandLoop env s' later))
               else (calls, s'))"
  by (simp split: prod.split)

text \<open>
  Every list that contains a power command splits at its first one, so the theorem on
  \<open>pre @ c # post\<close> below speaks of every such list.
\<close>

lemma first_power_command:
  assumes "list_ex isPowerCommand commands"
  shows "\<exists>pre c post. commands = pre @ c # post \<and> isPowerCommand c
           \<and> \<not> list_ex isPowerCommand pre"
proof -
  from assms have "\<exists>x \<in> set commands. isPowerCommand x" by (simp add: list_ex_iff)
  then obtain pre c post
    where "commands = pre @ c # post" "isPowerCommand c" "\<forall>p \<in> set pre. \<not> isPowerCommand p"
    by (rule split_list_first_propE)
  then show ?thesis by (auto simp: list_ex_iff)
qed

text \<open>
  Claim C6. In a list with a first \<open>reboot\<close> or \<open>shutdown\<close> command \<open>c\<close>, the
  interpreter makes the calls of the commands before \<open>c\<close>, then \<open>splExit\<close>,
  \<open>fsdevUnmountAll\<close> (all storage unmounted) and \<open>spsmShutdown\<close> with the mode of the
  verb (the power transition), and nothing else: whatever commands \<open>post\<close> follow \<open>c\<close>,
  none of them is dispatched, and the session is the one the commands before \<open>c\<close> left.
\<close>

theorem C6_power_verbs_terminal:
  assumes "isPowerCommand c"
    and "\<not> list_ex isPowerCommand pre"
  shows "commandLoop env s (pre @ c # post) =
           (fst (commandLoop env s pre)
              @ [SplExit, FsdevUnmountAll,
                 SpsmShutdown (if c ! 0 = ''reboot'' then SpsmShutdownMode_Reboot
                               else SpsmShutdownMode_Normal)],
            snd (commandLoop env s pre))"
  using assms(2)
proof (induction pre arbitrary: s)
  case Nil
  show ?case using commandLoop_power [OF assms(1)] by simp
next
  case (Cons p pre)
  then have IH: "commandLoop env t (pre @ c # post) =
           (fst (commandLoop env t pre)
              @ [SplExit, FsdevUnmountAll,
                 SpsmShutdown (if c ! 0 = ''reboot'' then SpsmShutdownMode_Reboot
                               else SpsmShutdownMode_Normal)],
            snd (commandLoop env t pre))" for t
    by simp
  show ?case
  proof (cases "p = []")
    case True
    then show ?thesis by (simp add: IH)
  next
    case False
    with Cons.prems have "p ! 0 \<notin> set powerVerbs" by (simp add: isPowerCommand_def)
    then have res: "snd (snd (executeOne env s p))"
      by (simp add: executeOne_def dispatch_resumes)
    show ?thesis
      using commandLoop_resumed [OF False res, of "pre @ c # post"]
        commandLoop_resumed [OF False res, of pre]
      by (simp add: IH)
  qed
qed

text \<open>
  \<open>mkdir\<close>, \<open>reboot\<close>, \<open>mkdir\<close>: the first directory is created, the power calls are
  made, the second directory is not created.
\<close>

theorem C6_power_verbs_terminal_witness:
  "isPowerCommand [''reboot'']
   \<and> \<not> list_ex isPowerCommand [[''mkdir'', ''sdmc:/a'']]
   \<and> commandLoop plainCollaborators initialSession
        ([[''mkdir'', ''sdmc:/a'']] @ [''reboot''] # [[''mkdir'', ''sdmc:/b'']])
      = ([CreateDirectory ''sdmc:/a'', SplExit, FsdevUnmountAll, SpsmShutdown 1],
         initialSession)"
proof -
  have h2: "isPowerCommand [''reboot'']"
    by (simp add: isPowerCommand_def powerVerbs_def)
  have h3: "\<not> list_ex isPowerCommand [[''mkdir'', ''sdmc:/a'']]"
    by (simp add: isPowerCommand_def powerVerbs_def)
  have pre: "commandLoop plainCollaborators initialSession [[''mkdir'', ''sdmc:/a'']]
               = ([CreateDirectory ''sdmc:/a''], initialSession)"
    by (simp add: executeOne_def dispatch_verbs doMake_def resolveCommand_def
        initialSession_def plainCollaborators_def)
  show ?thesis
    using h2 h3
      C6_power_verbs_terminal [OF h2 h3, of plainCollaborators initialSession
        "[[''mkdir'', ''sdmc:/b'']]"]
    by (simp add: pre SpsmShutdownMode_Reboot_def del: commandLoop.simps)
qed

text \<open>
  Claim C7. A command with fewer tokens than the minimum of its verb makes no call (so
  no operation and no log message) and leaves the session as it was. The loop then goes
  on: the list behaves as its rest does, and the command \<open>nxt\<close> that follows is skipped
  if it is empty and otherwise executed in the unchanged session, its calls coming first
  and the loop continuing after it with \<open>later\<close>.
\<close>

theorem C7_below_arity_skipped:
  assumes "cmd \<noteq> []" and "map_of minTokens (cmd ! 0) = Some n" and "length cmd < n"
  shows "executeOne env s cmd = ([], s, True) \<and>
         commandLoop env s (cmd # rest) = commandLoop env s rest \<and>
         commandLoop env s (cmd # nxt # later) =
           (if nxt = [] then commandLoop env s later
            else case executeOne env s nxt of
                   (calls, s', resumed) \<Rightarrow>
                     if resumed
                     then (calls @ fst (commandLoop env s' later),
                           snd (commandLoop env s' later))
                     else (calls, s'))"
proof -
  from assms(2) have "(cmd ! 0, n) \<in> set minTokens" by (rule map_of_SomeD)
  with assms(3) have skip: "executeOne env s cmd = ([], s, True)"
    by (auto simp: minTokens_def executeOne_def dispatch_verbs branch_defs
        length_resolveCommand)
  have "commandLoop env s (cmd # rest) = commandLoop env s rest" for rest
    using skip by (rule commandLoop_skip)
  with skip show ?thesis by (simp only: commandLoop_next [of env s nxt later] simp_thms)
qed

text \<open>
  The specification's example, \<open>copy\<close> with 2 tokens where 3 are required, in front of
  a \<open>mkdir\<close>: the copy does nothing and the directory is created.
\<close>

theorem C7_below_arity_skipped_witness:
  "[''copy'', ''/a''] \<noteq> [] \<and> map_of minTokens ([''copy'', ''/a''] ! 0) = Some 3
   \<and> length [''copy'', ''/a''] < 3
   \<and> executeOne plainCollaborators initialSession [''copy'', ''/a'']
        = ([], initialSession, True)
   \<and> commandLoop plainCollaborators initialSession [[''copy'', ''/a''], [''mkdir'', ''sdmc:/b'']]
        = ([CreateDirectory ''sdmc:/b''], initialSession)"
proof -
  have h: "map_of minTokens ([''copy'', ''/a''] ! 0) = Some 3"
    by (simp add: minTokens_def)
  have nxt: "executeOne plainCollaborators initialSession [''mkdir'', ''sdmc:/b'']
               = ([CreateDirectory ''sdmc:/b''], initialSession, True)"
    by (simp add: executeOne_def dispatch_verbs doMake_def resolveCommand_def
        initialSession_def plainCollaborators_def)
  show ?thesis
    using h C7_below_arity_skipped [of "[''copy'', ''/a'']" 3 plainCollaborators
        initialSession "[]" "[''mkdir'', ''sdmc:/b'']" "[]"]
    by (simp add: nxt del: commandLoop.simps(2))
qed

text \<open>
  Claim C8. The branch of the verb receives the tokens as given when the active
  document path is empty. When it is set, the branch receives the tokens in which
  every one that contains the marker \<open>{json_data(\<close> has been replaced by what the
  placeholder resolver gives for it and the path; the others are as given.
\<close>

theorem C8_placeholder_resolution:
  "executeOne env s cmd =
     dispatch env s (cmd ! 0)
       (if jsonPath s = [] then cmd
        else map (\<lambda>arg. if (\<exists>x y. arg = x @ ''{json_data('' @ y)
                         then replaceJsonSourcePlaceholder env arg (jsonPath s)
                         else arg) cmd)"
  by (simp add: executeOne_def resolveCommand_def modifyLoop_eq str_find_Some_iff)

text \<open>
  Without a document the placeholder stays literal; with one, the token with the marker
  is replaced and the token without it is not.
\<close>

theorem C8_placeholder_resolution_witness:
  "executeOne plainCollaborators initialSession [''mkdir'', ''sdmc:/{json_data(a.b)}'']
     = ([CreateDirectory ''sdmc:/{json_data(a.b)}''], initialSession, True)
   \<and> executeOne plainCollaborators (initialSession\<lparr>jsonPath := ''sdmc:/d.json''\<rparr>)
       [''copy'', ''sdmc:/{json_data(a.b)}'', ''sdmc:/plain'']
     = ([CopyFileOrDirectory ''<sdmc:/d.json>'' ''sdmc:/plain''],
        initialSession\<lparr>jsonPath := ''sdmc:/d.json''\<rparr>, True)"
  using C8_placeholder_resolution [of plainCollaborators initialSession
      "[''mkdir'', ''sdmc:/{json_data(a.b)}'']"]
    C8_placeholder_resolution [of plainCollaborators
      "initialSession\<lparr>jsonPath := ''sdmc:/d.json''\<rparr>"
      "[''copy'', ''sdmc:/{json_data(a.b)}'', ''sdmc:/plain'']"]
  unfolding str_find_Some_iff [symmetric]
  by (simp add: initialSession_def plainCollaborators_def
      dispatch_verbs doMake_def doCopy_def)

lemma resolverCallsLoop_eq:
  "resolverCallsLoop jp cmd =
     map (\<lambda>arg. (arg, jp)) (filter (\<lambda>arg. str_find arg ''{json_data('' \<noteq> None) cmd)"
  by (induction cmd) simp_all

lemma placeholderCalls_eq:
  "placeholderCalls jp cmd =
     (if jp = [] then []
      else map (\<lambda>arg. (arg, jp)) (filter (\<lambda>arg. \<exists>x y. arg = x @ ''{json_data('' @ y) cmd))"
  by (simp add: placeholderCalls_def resolverCallsLoop_eq str_find_Some_iff)

text \<open>The tokens that the resolver replaces are those for which a call is recorded.\<close>

lemma resolveCommand_calls:
  "resolveCommand env jp cmd =
     map (\<lambda>arg. if (arg, jp) \<in> set (placeholderCalls jp cmd)
                 then replaceJsonSourcePlaceholder env arg jp else arg) cmd"
  by (auto simp: resolveCommand_def modifyLoop_eq placeholderCalls_def resolverCallsLoop_eq)

text \<open>
  Claim C10, as the code has it. A non-empty command whose verb is none of the
  recognized ones makes no call that acts on storage, configuration, network, log or
  power, and leaves the whole session (the active document path included) as it was.
  The one collaborator it can reach is the placeholder resolver, which runs before the
  verb is looked at: it is called once for every token that contains the marker, and
  only while the active document path is set. The loop then goes on: the list behaves
  as its rest does, and the command \<open>nxt\<close> that follows is skipped if it is empty and
  otherwise executed in the unchanged session, the loop continuing after it with \<open>later\<close>.
\<close>

theorem C10_unrecognized_verb_noop:
  assumes "cmd \<noteq> []" and "cmd ! 0 \<notin> set recognizedVerbs"
  shows "executeOne env s cmd = ([], s, True) \<and>
         placeholderCalls (jsonPath s) cmd =
           (if jsonPath s = [] then []
            else map (\<lambda>arg. (arg, jsonPath s))
                   (filter (\<lambda>arg. \<exists>x y. arg = x @ ''{json_data('' @ y) cmd)) \<and>
         commandLoop env s (cmd # rest) = commandLoop env s rest \<and>
         commandLoop env s (cmd # nxt # later) =
           (if nxt = [] then commandLoop env s later
            else case executeOne env s nxt of
                   (calls, s', resumed) \<Rightarrow>
                     if resumed
                     then (calls @ fst (commandLoop env s' later),
                           snd (commandLoop env s' later))
                     else (calls, s'))"
proof -
  from assms(2) have skip: "executeOne env s cmd = ([], s, True)"
    by (simp add: executeOne_def dispatch_unrecognized)
  have "commandLoop env s (cmd # rest) = commandLoop env s rest" for rest
    using skip by (rule commandLoop_skip)
  with skip placeholderCalls_eq [of "jsonPath s" cmd] show ?thesis
    by (simp only: commandLoop_next [of env s nxt later] simp_thms)
qed

text \<open>
  An unknown verb in front of a \<open>mkdir\<close>, with no active document: no call of any
  kind for the unknown verb, and the directory is created.
\<close>

theorem C10_unrecognized_verb_noop_witness:
  "[''frobnicate'', ''sdmc:/a''] \<noteq> [] \<and> [''frobnicate'', ''sdmc:/a''] ! 0 \<notin> set recognizedVerbs
   \<and> executeOne plainCollaborators initialSession [''frobnicate'', ''sdmc:/a'']
        = ([], initialSession, True)
   \<and> placeholderCalls (jsonPath initialSession) [''frobnicate'', ''sdmc:/a''] = []
   \<and> commandLoop plainCollaborators initialSession
        [[''frobnicate'', ''sdmc:/a''], [''mkdir'', ''sdmc:/b'']]
        = ([CreateDirectory ''sdmc:/b''], initialSession)"
proof -
  have h: "[''frobnicate'', ''sdmc:/a''] ! 0 \<notin> set recognizedVerbs"
    by (simp add: recognizedVerbs_def)
  have nxt: "executeOne plainCollaborators initialSession [''mkdir'', ''sdmc:/b'']
               = ([CreateDirectory ''sdmc:/b''], initialSession, True)"
    by (simp add: executeOne_def dispatch_verbs doMake_def resolveCommand_def
        initialSession_def plainCollaborators_def)
  have doc: "jsonPath initialSession = []"
    by (simp add: initialSession_def)
  show ?thesis
    using h C10_unrecognized_verb_noop [of "[''frobnicate'', ''sdmc:/a'']"
        plainCollaborators initialSession "[]" "[''mkdir'', ''sdmc:/b'']" "[]"]
    by (simp add: nxt doc del: commandLoop.simps(2))
qed

text \<open>
  Claim C10 as stated has no collaborator invoked at all. With a document active, an
  unknown verb with a marker in its operand has the placeholder resolver called on that
  operand, and the command is rewritten with its answer, before the verb is found to
  be unknown.
\<close>

theorem C10_resolver_called_counterexample:
  "[''frobnicate'', ''{json_data(a.b)}''] ! 0 \<notin> set recognizedVerbs
   \<and> placeholderCalls ''sdmc:/d.json'' [''frobnicate'', ''{json_data(a.b)}'']
        = [(''{json_data(a.b)}'', ''sdmc:/d.json'')]
   \<and> resolveCommand plainCollaborators ''sdmc:/d.json'' [''frobnicate'', ''{json_data(a.b)}'']
        = [''frobnicate'', ''<sdmc:/d.json>'']
   \<and> executeOne plainCollaborators (initialSession\<lparr>jsonPath := ''sdmc:/d.json''\<rparr>)
        [''frobnicate'', ''{json_data(a.b)}'']
        = ([], initialSession\<lparr>jsonPath := ''sdmc:/d.json''\<rparr>, True)"
  by (simp add: recognizedVerbs_def placeholderCalls_def resolveCommand_def
      plainCollaborators_def executeOne_def initialSession_def dispatch_def)

end
